theory Spec2Isabelle
  imports Complex_Main
begin

section \<open>Numbers, vectors and matrices\<close>

text \<open>
  The C++ types \<^verbatim>\<open>float\<close> and \<^verbatim>\<open>double\<close> are modelled by \<^typ>\<open>real\<close>:
  the arithmetic of the program is read as exact arithmetic, except in the
  mouse-position callback, where a \<^verbatim>\<open>double\<close> is stored into a \<^verbatim>\<open>float\<close> and
  the rounding is written out (see \<open>to_float\<close> below). Overflow to infinity and NaN
  are outside this model. The GLM types \<^verbatim>\<open>glm::vec2\<close>,
  \<^verbatim>\<open>glm::vec3\<close>, \<^verbatim>\<open>glm::vec4\<close> are tuples of components, and a
  \<^verbatim>\<open>glm::mat4\<close> is its four columns, as in GLM (column-major).
\<close>

datatype vec2 = Vec2 real real

datatype vec3 = Vec3 real real real

datatype vec4 = Vec4 real real real real

datatype mat4 = Mat4 vec4 vec4 vec4 vec4

text \<open>\<^verbatim>\<open>glm::radians\<close>: degrees to radians.\<close>

definition radians :: "real \<Rightarrow> real" where
  "radians degrees = degrees * (pi / 180)"

fun dot :: "vec3 \<Rightarrow> vec3 \<Rightarrow> real" where
  "dot (Vec3 ax ay az) (Vec3 bx by bz) = ax * bx + ay * by + az * bz"

fun cross :: "vec3 \<Rightarrow> vec3 \<Rightarrow> vec3" where
  "cross (Vec3 ax ay az) (Vec3 bx by bz) =
     Vec3 (ay * bz - by * az) (az * bx - bz * ax) (ax * by - bx * ay)"

fun scale3 :: "real \<Rightarrow> vec3 \<Rightarrow> vec3" where
  "scale3 k (Vec3 x y z) = Vec3 (k * x) (k * y) (k * z)"

text \<open>\<^verbatim>\<open>glm::normalize(v)\<close> is \<^verbatim>\<open>v * inversesqrt(dot(v, v))\<close>.\<close>

definition glm_normalize :: "vec3 \<Rightarrow> vec3" where
  "glm_normalize v = scale3 (1 / sqrt (dot v v)) v"

fun scale4 :: "real \<Rightarrow> vec4 \<Rightarrow> vec4" where
  "scale4 k (Vec4 x y z w) = Vec4 (k * x) (k * y) (k * z) (k * w)"

fun add4 :: "vec4 \<Rightarrow> vec4 \<Rightarrow> vec4" where
  "add4 (Vec4 ax ay az aw) (Vec4 bx by bz bw) = Vec4 (ax + bx) (ay + by) (az + bz) (aw + bw)"

text \<open>
  \<^verbatim>\<open>mat4 * vec4\<close>: the linear combination of the columns with the components of
  the vector. \<^verbatim>\<open>mat4 * mat4\<close>: column \<open>j\<close> of the product is the left matrix applied
  to column \<open>j\<close> of the right one.
\<close>

fun mat4_mul_vec4 :: "mat4 \<Rightarrow> vec4 \<Rightarrow> vec4" where
  "mat4_mul_vec4 (Mat4 c0 c1 c2 c3) (Vec4 x y z w) =
     add4 (add4 (add4 (scale4 x c0) (scale4 y c1)) (scale4 z c2)) (scale4 w c3)"

fun mat4_mul :: "mat4 \<Rightarrow> mat4 \<Rightarrow> mat4" where
  "mat4_mul m (Mat4 b0 b1 b2 b3) =
     Mat4 (mat4_mul_vec4 m b0) (mat4_mul_vec4 m b1) (mat4_mul_vec4 m b2) (mat4_mul_vec4 m b3)"

text \<open>\<^verbatim>\<open>glm::scale(v)\<close>, \<^verbatim>\<open>glm::translate(v)\<close> and \<^verbatim>\<open>glm::rotate(angle, axis)\<close>
  of \<^verbatim>\<open>glm/gtx/transform.hpp\<close>, each applied to the identity matrix.\<close>

fun glm_scale :: "vec3 \<Rightarrow> mat4" where
  "glm_scale (Vec3 x y z) =
     Mat4 (Vec4 x 0 0 0) (Vec4 0 y 0 0) (Vec4 0 0 z 0) (Vec4 0 0 0 1)"

fun glm_translate :: "vec3 \<Rightarrow> mat4" where
  "glm_translate (Vec3 x y z) =
     Mat4 (Vec4 1 0 0 0) (Vec4 0 1 0 0) (Vec4 0 0 1 0) (Vec4 x y z 1)"

fun rotate_unit :: "real \<Rightarrow> real \<Rightarrow> vec3 \<Rightarrow> mat4" where
  "rotate_unit c s (Vec3 x y z) =
     Mat4 (Vec4 (c + (1 - c) * x * x) ((1 - c) * x * y + s * z) ((1 - c) * x * z - s * y) 0)
          (Vec4 ((1 - c) * y * x - s * z) (c + (1 - c) * y * y) ((1 - c) * y * z + s * x) 0)
          (Vec4 ((1 - c) * z * x + s * y) ((1 - c) * z * y - s * x) (c + (1 - c) * z * z) 0)
          (Vec4 0 0 0 1)"

definition glm_rotate :: "real \<Rightarrow> vec3 \<Rightarrow> mat4" where
  "glm_rotate angle v = rotate_unit (cos angle) (sin angle) (glm_normalize v)"

subsection \<open>Rounding to a binary floating-point format\<close>





section \<open>The shader manager\<close>

text \<open>
  Modelled from the spec: the shader manager (ShaderManager.h is not among the sources).
  The spec gives it one operation per uniform type, \<open>set_<type>_value(uniform_name, value)\<close>,
  addressed by string name. The model keeps the uploads in the order they were made; the
  value of a uniform in effect is the last one uploaded under its name.
\<close>

datatype UniformValue =
    IntValue int
  | BoolValue bool
  | FloatValue real
  | Vec2Value vec2
  | Vec3Value vec3
  | Vec4Value vec4
  | Mat4Value mat4
  | Sampler2DValue int

type_synonym ShaderManager = "(string \<times> UniformValue) list"

definition setIntValue :: "string \<Rightarrow> int \<Rightarrow> ShaderManager \<Rightarrow> ShaderManager" where
  "setIntValue name v sh = sh @ [(name, IntValue v)]"

definition setFloatValue :: "string \<Rightarrow> real \<Rightarrow> ShaderManager \<Rightarrow> ShaderManager" where
  "setFloatValue name v sh = sh @ [(name, FloatValue v)]"

definition setVec2Value :: "string \<Rightarrow> vec2 \<Rightarrow> ShaderManager \<Rightarrow> ShaderManager" where
  "setVec2Value name v sh = sh @ [(name, Vec2Value v)]"

definition setVec3Value :: "string \<Rightarrow> vec3 \<Rightarrow> ShaderManager \<Rightarrow> ShaderManager" where
  "setVec3Value name v sh = sh @ [(name, Vec3Value v)]"

definition setVec4Value :: "string \<Rightarrow> vec4 \<Rightarrow> ShaderManager \<Rightarrow> ShaderManager" where
  "setVec4Value name v sh = sh @ [(name, Vec4Value v)]"

definition setMat4Value :: "string \<Rightarrow> mat4 \<Rightarrow> ShaderManager \<Rightarrow> ShaderManager" where
  "setMat4Value name v sh = sh @ [(name, Mat4Value v)]"

definition setSampler2DValue :: "string \<Rightarrow> int \<Rightarrow> ShaderManager \<Rightarrow> ShaderManager" where
  "setSampler2DValue name v sh = sh @ [(name, Sampler2DValue v)]"

section \<open>The scene manager (SceneManager.cpp)\<close>

text \<open>
  Dereferencing a null pointer and indexing an array outside its bounds are undefined
  behaviour in C++; the model returns them as errors.
\<close>

datatype error = NullPointerDereference | ArrayIndexOutOfBounds

text \<open>
  The two structures of the class. Both have a field \<open>tag\<close> in the source; the one of
  a material is written \<open>mtag\<close> here.
\<close>

record OBJECT_MATERIAL =
  ambientColor :: vec3
  ambientStrength :: real
  diffuseColor :: vec3
  specularColor :: vec3
  shininess :: real
  mtag :: string

record TEXTURE_INFO =
  ID :: nat
  tag :: string

text \<open>
  The members of the class. \<open>m_textureIDs\<close> is the whole texture array, every slot of
  it, so its length is the capacity the header declares (SceneManager.h is not among
  the sources); \<open>m_loadedTextures\<close> counts the slots in use. The counter is a C++
  \<open>int\<close>; it only grows while it indexes a slot of the array, so it stays far from
  the bounds of its type. A null \<open>m_pShaderManager\<close> is \<open>None\<close>.
\<close>

record SceneManager =
  m_pShaderManager :: "ShaderManager option"
  m_textureIDs :: "TEXTURE_INFO list"
  m_loadedTextures :: int
  m_objectMaterials :: "OBJECT_MATERIAL list"

definition g_ModelName :: string where
  "g_ModelName = ''model''"

definition g_ColorValueName :: string where
  "g_ColorValueName = ''objectColor''"

definition g_TextureValueName :: string where
  "g_TextureValueName = ''objectTexture''"

definition g_UseTextureName :: string where
  "g_UseTextureName = ''bUseTexture''"

text \<open>
  What \<^verbatim>\<open>stbi_load\<close> reports of a decoded image. A file that is missing or corrupt
  decodes to \<open>None\<close> (the null pointer).
\<close>

record Image =
  width :: int
  height :: int
  colorChannels :: int

text \<open>
  \<^verbatim>\<open>CreateGLTexture\<close>. The decoder and the texture name that \<^verbatim>\<open>glGenTextures\<close>
  hands out are parameters. The result is the returned boolean and the scene manager
  after the call. The write to \<open>m_textureIDs[m_loadedTextures]\<close> is not guarded in the
  source.
\<close>

definition CreateGLTexture ::
  "(string \<Rightarrow> Image option) \<Rightarrow> nat \<Rightarrow> string \<Rightarrow> string \<Rightarrow> SceneManager
     \<Rightarrow> error + (bool \<times> SceneManager)" where
  "CreateGLTexture stbi_load textureID filename tg st =
     (case stbi_load filename of
        Some img \<Rightarrow>
          if colorChannels img = 3 \<or> colorChannels img = 4 then
            (if 0 \<le> m_loadedTextures st \<and> m_loadedTextures st < int (length (m_textureIDs st))
             then Inr (True,
               st\<lparr>m_textureIDs :=
                     (m_textureIDs st)[nat (m_loadedTextures st) := \<lparr>ID = textureID, tag = tg\<rparr>],
                   m_loadedTextures := m_loadedTextures st + 1\<rparr>)
             else Inl ArrayIndexOutOfBounds)
          else Inr (False, st)
      | None \<Rightarrow> Inr (False, st))"

text \<open>
  \<^verbatim>\<open>FindTextureSlot\<close>: the loop over \<open>index\<close>, \<open>bFound\<close> and \<open>textureSlot\<close>.
\<close>

function FindTextureSlot_loop ::
  "SceneManager \<Rightarrow> string \<Rightarrow> int \<Rightarrow> bool \<Rightarrow> int \<Rightarrow> error + int" where
  "FindTextureSlot_loop st tg index bFound textureSlot =
     (if index < m_loadedTextures st \<and> bFound = False then
        (if index < 0 \<or> int (length (m_textureIDs st)) \<le> index then Inl ArrayIndexOutOfBounds
         else if tag (m_textureIDs st ! nat index) = tg
              then FindTextureSlot_loop st tg index True index
              else FindTextureSlot_loop st tg (index + 1) False textureSlot)
      else Inr textureSlot)"
  by pat_completeness auto
termination
  by (relation "measure (\<lambda>(st, tg, index, bFound, textureSlot).
        2 * nat (m_loadedTextures st - index) + (if bFound then 0 else 1))") auto

definition FindTextureSlot :: "string \<Rightarrow> SceneManager \<Rightarrow> error + int" where
  "FindTextureSlot tg st = FindTextureSlot_loop st tg 0 False (- 1)"

text \<open>
  \<^verbatim>\<open>FindMaterial\<close>. The reference parameter \<open>material\<close> is passed in and returned
  with the boolean. The loop copies the five coefficients of a matching entry (not its
  tag); the function returns \<open>true\<close> after the loop whatever \<open>bFound\<close> is.
\<close>

function FindMaterial_loop ::
  "OBJECT_MATERIAL list \<Rightarrow> string \<Rightarrow> nat \<Rightarrow> bool \<Rightarrow> OBJECT_MATERIAL \<Rightarrow> OBJECT_MATERIAL" where
  "FindMaterial_loop ms tg index bFound material =
     (if index < length ms \<and> bFound = False then
        (if mtag (ms ! index) = tg
         then FindMaterial_loop ms tg index True
                (material\<lparr>ambientColor := ambientColor (ms ! index),
                          ambientStrength := ambientStrength (ms ! index),
                          diffuseColor := diffuseColor (ms ! index),
                          specularColor := specularColor (ms ! index),
                          shininess := shininess (ms ! index)\<rparr>)
         else FindMaterial_loop ms tg (index + 1) False material)
      else material)"
  by pat_completeness auto
termination
  by (relation "measure (\<lambda>(ms, tg, index, bFound, material).
        2 * (length ms - index) + (if bFound then 0 else 1))") auto

definition FindMaterial ::
  "string \<Rightarrow> OBJECT_MATERIAL \<Rightarrow> SceneManager \<Rightarrow> bool \<times> OBJECT_MATERIAL" where
  "FindMaterial tg material st =
     (if length (m_objectMaterials st) = 0 then (False, material)
      else (True, FindMaterial_loop (m_objectMaterials st) tg 0 False material))"

text \<open>
  \<^verbatim>\<open>SetTransformations\<close>. \<open>modelView\<close> is the local of that name: the product
  \<^verbatim>\<open>translation * rotationX * rotationY * rotationZ * scale\<close>, which C++ associates
  to the left.
\<close>

definition modelView :: "vec3 \<Rightarrow> real \<Rightarrow> real \<Rightarrow> real \<Rightarrow> vec3 \<Rightarrow> mat4" where
  "modelView scaleXYZ XrotationDegrees YrotationDegrees ZrotationDegrees positionXYZ =
     (let scale = glm_scale scaleXYZ;
          rotationX = glm_rotate (radians XrotationDegrees) (Vec3 1 0 0);
          rotationY = glm_rotate (radians YrotationDegrees) (Vec3 0 1 0);
          rotationZ = glm_rotate (radians ZrotationDegrees) (Vec3 0 0 1);
          translation = glm_translate positionXYZ
      in mat4_mul (mat4_mul (mat4_mul (mat4_mul translation rotationX) rotationY) rotationZ) scale)"

definition SetTransformations ::
  "vec3 \<Rightarrow> real \<Rightarrow> real \<Rightarrow> real \<Rightarrow> vec3 \<Rightarrow> SceneManager \<Rightarrow> SceneManager" where
  "SetTransformations scaleXYZ XrotationDegrees YrotationDegrees ZrotationDegrees positionXYZ st =
     (case m_pShaderManager st of
        None \<Rightarrow> st
      | Some sh \<Rightarrow>
          st\<lparr>m_pShaderManager := Some (setMat4Value g_ModelName
                (modelView scaleXYZ XrotationDegrees YrotationDegrees ZrotationDegrees positionXYZ)
                sh)\<rparr>)"

definition SetShaderColor :: "real \<Rightarrow> real \<Rightarrow> real \<Rightarrow> real \<Rightarrow> SceneManager \<Rightarrow> SceneManager" where
  "SetShaderColor redColorValue greenColorValue blueColorValue alphaValue st =
     (let currentColor = Vec4 redColorValue greenColorValue blueColorValue alphaValue
      in case m_pShaderManager st of
           None \<Rightarrow> st
         | Some sh \<Rightarrow>
             st\<lparr>m_pShaderManager := Some (setVec4Value g_ColorValueName currentColor
                   (setIntValue g_UseTextureName 0 sh))\<rparr>)"

definition SetShaderTexture :: "string \<Rightarrow> SceneManager \<Rightarrow> error + SceneManager" where
  "SetShaderTexture textureTag st =
     (case m_pShaderManager st of
        None \<Rightarrow> Inr st
      | Some sh \<Rightarrow>
          (case FindTextureSlot textureTag st of
             Inl e \<Rightarrow> Inl e
           | Inr textureID \<Rightarrow>
               Inr (st\<lparr>m_pShaderManager := Some (setSampler2DValue g_TextureValueName textureID
                     (setIntValue g_UseTextureName 1 sh))\<rparr>)))"

definition SetTextureUVScale :: "real \<Rightarrow> real \<Rightarrow> SceneManager \<Rightarrow> SceneManager" where
  "SetTextureUVScale u v st =
     (case m_pShaderManager st of
        None \<Rightarrow> st
      | Some sh \<Rightarrow> st\<lparr>m_pShaderManager := Some (setVec2Value ''UVscale'' (Vec2 u v) sh)\<rparr>)"

text \<open>
  \<^verbatim>\<open>SetShaderMaterial\<close>. The local \<open>material\<close> is declared without an initialiser,
  so what it holds before \<^verbatim>\<open>FindMaterial\<close> fills it is the parameter \<open>uninitialized\<close>.
  The five uploads go through \<open>m_pShaderManager\<close> with no null check.
\<close>

definition SetShaderMaterial ::
  "string \<Rightarrow> OBJECT_MATERIAL \<Rightarrow> SceneManager \<Rightarrow> error + SceneManager" where
  "SetShaderMaterial materialTag uninitialized st =
     (if length (m_objectMaterials st) > 0 then
        (case FindMaterial materialTag uninitialized st of
           (bReturn, material) \<Rightarrow>
             if bReturn = True then
               (case m_pShaderManager st of
                  None \<Rightarrow> Inl NullPointerDereference
                | Some sh \<Rightarrow>
                    Inr (st\<lparr>m_pShaderManager := Some
                      (setFloatValue ''material.shininess'' (shininess material)
                      (setVec3Value ''material.specularColor'' (specularColor material)
                      (setVec3Value ''material.diffuseColor'' (diffuseColor material)
                      (setFloatValue ''material.ambientStrength'' (ambientStrength material)
                      (setVec3Value ''material.ambientColor'' (ambientColor material) sh)))))\<rparr>))
             else Inr st)
      else Inr st)"

text \<open>
  \<^verbatim>\<open>DefineObjectMaterials\<close>: the five materials of the scene, appended in the order
  of the source.
\<close>

definition DefineObjectMaterials :: "SceneManager \<Rightarrow> SceneManager" where
  "DefineObjectMaterials st =
     (let grassMaterial =
            \<lparr>ambientColor = Vec3 0.4 0.6 0.3, ambientStrength = 0.03,
             diffuseColor = Vec3 0.4 0.6 0.3, specularColor = Vec3 0.35 0.45 0.35,
             shininess = 5, mtag = ''grass''\<rparr>;
          dirtMaterial =
            \<lparr>ambientColor = Vec3 0.5 0.4 0.3, ambientStrength = 0.01,
             diffuseColor = Vec3 0.5 0.4 0.3, specularColor = Vec3 0.18 0.18 0.18,
             shininess = 1.2, mtag = ''dirt''\<rparr>;
          brickMaterial =
            \<lparr>ambientColor = Vec3 0.6 0.4 0.3, ambientStrength = 0.05,
             diffuseColor = Vec3 0.6 0.4 0.3, specularColor = Vec3 0.45 0.35 0.35,
             shininess = 4, mtag = ''brick''\<rparr>;
          hedgeMaterial =
            \<lparr>ambientColor = Vec3 0.3 0.5 0.2, ambientStrength = 0.06,
             diffuseColor = Vec3 0.3 0.5 0.2, specularColor = Vec3 0.22 0.32 0.22,
             shininess = 3, mtag = ''hedge''\<rparr>;
          foliageMaterial =
            \<lparr>ambientColor = Vec3 0.35 0.55 0.25, ambientStrength = 0.06,
             diffuseColor = Vec3 0.35 0.55 0.25, specularColor = Vec3 0.28 0.35 0.28,
             shininess = 7, mtag = ''foliage''\<rparr>
      in st\<lparr>m_objectMaterials := m_objectMaterials st @
            [grassMaterial, dirtMaterial, brickMaterial, hedgeMaterial, foliageMaterial]\<rparr>)"

text \<open>
  A scene manager as the constructor leaves it, holding the given shader manager. The
  texture array is taken with 16 slots (\<^verbatim>\<open>BindGLTextures\<close>: ``there are up to 16
  slots''), none of them loaded, and no material is defined yet.
\<close>

definition SceneManager_new :: "ShaderManager option \<Rightarrow> SceneManager" where
  "SceneManager_new pShaderManager =
     \<lparr>m_pShaderManager = pShaderManager,
      m_textureIDs = replicate 16 \<lparr>ID = 0, tag = []\<rparr>,
      m_loadedTextures = 0,
      m_objectMaterials = []\<rparr>"

text \<open>The texture catalog: the slots of the array in use, in insertion order.\<close>

definition textureCatalog :: "SceneManager \<Rightarrow> TEXTURE_INFO list" where
  "textureCatalog st = take (nat (m_loadedTextures st)) (m_textureIDs st)"

text \<open>The same scene manager with every slot of the array in use.\<close>

definition fullScene :: SceneManager where
  "fullScene = (SceneManager_new None)\<lparr>m_loadedTextures := 16\<rparr>"

text \<open>Decoded images with three channels and with one.\<close>

definition rgbImage :: Image where
  "rgbImage = \<lparr>width = 2, height = 2, colorChannels = 3\<rparr>"

definition grayImage :: Image where
  "grayImage = \<lparr>width = 2, height = 2, colorChannels = 1\<rparr>"

text \<open>Some content an uninitialised \<open>OBJECT_MATERIAL\<close> may hold.\<close>

definition stale :: OBJECT_MATERIAL where
  "stale = \<lparr>ambientColor = Vec3 9 9 9, ambientStrength = 7, diffuseColor = Vec3 8 8 8,
            specularColor = Vec3 6 6 6, shininess = 3, mtag = []\<rparr>"

section \<open>The camera\<close>

text \<open>
  Modelled from the spec: the camera helper (camera.h is not among the sources). The spec
  calls it a well-known third-party camera helper; its orientation-update routine adds
  the offsets, scaled by the mouse sensitivity, to yaw and pitch, keeps the pitch within
  \<open>[-89, 89]\<close> degrees, and recomputes the camera basis vectors from yaw and pitch. The
  fields \<open>Position\<close>, \<open>Front\<close>, \<open>Up\<close>, \<open>Yaw\<close>, \<open>Pitch\<close>, \<open>Zoom\<close> and \<open>MovementSpeed\<close> are
  those ViewManager.cpp reads and writes.
\<close>

record Camera =
  Position :: vec3
  Front :: vec3
  Up :: vec3
  Right :: vec3
  WorldUp :: vec3
  Yaw :: real
  Pitch :: real
  MovementSpeed :: real
  MouseSensitivity :: real
  Zoom :: real

definition frontOf :: "real \<Rightarrow> real \<Rightarrow> vec3" where
  "frontOf yaw pitch =
     glm_normalize (Vec3 (cos (radians yaw) * cos (radians pitch))
                     (sin (radians pitch))
                     (sin (radians yaw) * cos (radians pitch)))"

definition updateCameraVectors :: "Camera \<Rightarrow> Camera" where
  "updateCameraVectors c =
     (let front = frontOf (Yaw c) (Pitch c);
          right = glm_normalize (cross front (WorldUp c));
          up = glm_normalize (cross right front)
      in c\<lparr>Front := front, Right := right, Up := up\<rparr>)"

definition constrainPitch :: "real \<Rightarrow> real" where
  "constrainPitch p = (if p > 89 then 89 else if p < - 89 then - 89 else p)"

definition ProcessMouseMovement :: "real \<Rightarrow> real \<Rightarrow> Camera \<Rightarrow> Camera" where
  "ProcessMouseMovement xoffset yoffset c =
     updateCameraVectors
       (c\<lparr>Yaw := Yaw c + xoffset * MouseSensitivity c,
          Pitch := constrainPitch (Pitch c + yoffset * MouseSensitivity c)\<rparr>)"

text \<open>The camera a default-constructed \<^verbatim>\<open>Camera()\<close> is, with the helper's defaults.\<close>

definition Camera_new :: Camera where
  "Camera_new =
     updateCameraVectors
       \<lparr>Position = Vec3 0 0 0, Front = Vec3 0 0 (- 1), Up = Vec3 0 1 0, Right = Vec3 1 0 0,
        WorldUp = Vec3 0 1 0, Yaw = - 90, Pitch = 0, MovementSpeed = 5 / 2,
        MouseSensitivity = 1 / 10, Zoom = 45\<rparr>"

section \<open>The view manager (ViewManager.cpp)\<close>

text \<open>
  The variables of the anonymous namespace of ViewManager.cpp. A null \<open>g_pCamera\<close> is
  \<open>None\<close>.
\<close>

record ViewManager =
  g_pCamera :: "Camera option"
  gLastX :: real
  gLastY :: real
  gFirstMouse :: bool
  gDeltaTime :: real
  gLastFrame :: real
  gCameraSpeed :: real
  bOrthographicProjection :: bool
  perspectivePosition :: vec3
  perspectiveFront :: vec3
  perspectiveUp :: vec3
  perspectiveYaw :: real
  perspectivePitch :: real
  orthographicPosition :: vec3
  orthographicFront :: vec3
  orthographicUp :: vec3
  orthographicYaw :: real
  orthographicPitch :: real
  cameraStatesInitialized :: bool

definition WINDOW_WIDTH :: int where
  "WINDOW_WIDTH = 1000"

definition WINDOW_HEIGHT :: int where
  "WINDOW_HEIGHT = 800"

definition MIN_CAMERA_SPEED :: real where
  "MIN_CAMERA_SPEED = 1 / 2"

definition MAX_CAMERA_SPEED :: real where
  "MAX_CAMERA_SPEED = 10"

text \<open>The initialisers of the namespace; variables without one start zeroed.\<close>

definition globals :: ViewManager where
  "globals =
     \<lparr>g_pCamera = None,
      gLastX = real_of_int WINDOW_WIDTH / 2,
      gLastY = real_of_int WINDOW_HEIGHT / 2,
      gFirstMouse = True,
      gDeltaTime = 0,
      gLastFrame = 0,
      gCameraSpeed = 5 / 2,
      bOrthographicProjection = False,
      perspectivePosition = Vec3 0 0 0,
      perspectiveFront = Vec3 0 0 0,
      perspectiveUp = Vec3 0 0 0,
      perspectiveYaw = 0,
      perspectivePitch = 0,
      orthographicPosition = Vec3 0 0 0,
      orthographicFront = Vec3 0 0 0,
      orthographicUp = Vec3 0 0 0,
      orthographicYaw = 0,
      orthographicPitch = 0,
      cameraStatesInitialized = False\<rparr>"

text \<open>The constructor \<^verbatim>\<open>ViewManager::ViewManager\<close>, on the namespace variables.\<close>

definition ViewManager_new :: "ViewManager \<Rightarrow> ViewManager" where
  "ViewManager_new st =
     (let c = Camera_new\<lparr>Position := Vec3 0 5 12, Front := Vec3 0 (- (1 / 2)) (- 2),
                         Up := Vec3 0 1 0, Zoom := 80\<rparr>
      in st\<lparr>g_pCamera := Some c,
            perspectivePosition := Position c,
            perspectiveFront := Front c,
            perspectiveUp := Up c,
            perspectiveYaw := Yaw c,
            perspectivePitch := Pitch c,
            orthographicPosition := Vec3 0 15 0,
            orthographicFront := Vec3 0 (- 1) 0,
            orthographicUp := Vec3 0 0 (- 1),
            orthographicYaw := - 90,
            orthographicPitch := - 89,
            cameraStatesInitialized := True\<rparr>)"


definition Mouse_Scroll_Callback :: "real \<Rightarrow> real \<Rightarrow> ViewManager \<Rightarrow> ViewManager" where
  "Mouse_Scroll_Callback xOffset yOffset st =
     (let speed = gCameraSpeed st + yOffset * (1 / 2);
          clamped = (if speed < MIN_CAMERA_SPEED then MIN_CAMERA_SPEED
                     else if speed > MAX_CAMERA_SPEED then MAX_CAMERA_SPEED
                     else speed);
          st1 = st\<lparr>gCameraSpeed := clamped\<rparr>
      in case g_pCamera st1 of
           None \<Rightarrow> st1
         | Some c \<Rightarrow> st1\<lparr>g_pCamera := Some (c\<lparr>MovementSpeed := clamped\<rparr>)\<rparr>)"

text \<open>
  \<^verbatim>\<open>SwitchToOrthographic\<close> and \<^verbatim>\<open>SwitchToPerspective\<close> use \<open>g_pCamera\<close> without a
  null check.
\<close>

definition SwitchToOrthographic :: "ViewManager \<Rightarrow> error + ViewManager" where
  "SwitchToOrthographic st =
     (if \<not> bOrthographicProjection st \<and> cameraStatesInitialized st then
        (case g_pCamera st of
           None \<Rightarrow> Inl NullPointerDereference
         | Some c \<Rightarrow>
             Inr (st\<lparr>perspectivePosition := Position c,
                     perspectiveFront := Front c,
                     perspectiveUp := Up c,
                     perspectiveYaw := Yaw c,
                     perspectivePitch := Pitch c,
                     g_pCamera := Some (ProcessMouseMovement 0 0
                       (c\<lparr>Position := orthographicPosition st,
                          Front := orthographicFront st,
                          Up := orthographicUp st,
                          Yaw := orthographicYaw st,
                          Pitch := orthographicPitch st\<rparr>)),
                     bOrthographicProjection := True\<rparr>))
      else Inr st)"

definition SwitchToPerspective :: "ViewManager \<Rightarrow> error + ViewManager" where
  "SwitchToPerspective st =
     (if bOrthographicProjection st \<and> cameraStatesInitialized st then
        (case g_pCamera st of
           None \<Rightarrow> Inl NullPointerDereference
         | Some c \<Rightarrow>
             Inr (st\<lparr>orthographicPosition := Position c,
                     orthographicFront := Front c,
                     orthographicUp := Up c,
                     orthographicYaw := Yaw c,
                     orthographicPitch := Pitch c,
                     g_pCamera := Some (ProcessMouseMovement 0 0
                       (c\<lparr>Position := perspectivePosition st,
                          Front := perspectiveFront st,
                          Up := perspectiveUp st,
                          Yaw := perspectiveYaw st,
                          Pitch := perspectivePitch st\<rparr>)),
                     bOrthographicProjection := False\<rparr>))
      else Inr st)"

text \<open>Running one call after another: the second runs only if the first returned.\<close>

definition andThen :: "error + 'a \<Rightarrow> ('a \<Rightarrow> error + 'b) \<Rightarrow> error + 'b" where
  "andThen r f = (case r of Inl e \<Rightarrow> Inl e | Inr x \<Rightarrow> f x)"

text \<open>
  The two stored poses, and the pose of a camera: position, front, up, yaw and pitch.
\<close>

definition perspectiveSlot :: "ViewManager \<Rightarrow> vec3 \<times> vec3 \<times> vec3 \<times> real \<times> real" where
  "perspectiveSlot st =
     (perspectivePosition st, perspectiveFront st, perspectiveUp st,
      perspectiveYaw st, perspectivePitch st)"

definition orthographicSlot :: "ViewManager \<Rightarrow> vec3 \<times> vec3 \<times> vec3 \<times> real \<times> real" where
  "orthographicSlot st =
     (orthographicPosition st, orthographicFront st, orthographicUp st,
      orthographicYaw st, orthographicPitch st)"

definition pose :: "Camera \<Rightarrow> vec3 \<times> vec3 \<times> vec3 \<times> real \<times> real" where
  "pose c = (Position c, Front c, Up c, Yaw c, Pitch c)"

text \<open>Reading the outcome of a call: the state it returned, and the live camera there.\<close>

definition viewOf :: "error + ViewManager \<Rightarrow> ViewManager option" where
  "viewOf r = (case r of Inl e \<Rightarrow> None | Inr st \<Rightarrow> Some st)"

definition cameraOf :: "error + ViewManager \<Rightarrow> Camera option" where
  "cameraOf r = (case r of Inl e \<Rightarrow> None | Inr st \<Rightarrow> g_pCamera st)"

text \<open>
  The view after construction, in perspective mode, and the camera the constructor
  leaves in it.
\<close>

definition startView :: ViewManager where
  "startView = ViewManager_new globals"

definition startCamera :: Camera where
  "startCamera = Camera_new\<lparr>Position := Vec3 0 5 12, Front := Vec3 0 (- (1 / 2)) (- 2),
                            Up := Vec3 0 1 0, Zoom := 80\<rparr>"

text \<open>A sequence of scroll events, each an \<open>(xOffset, yOffset)\<close> pair, handled in order.\<close>

definition scrolls :: "(real \<times> real) list \<Rightarrow> ViewManager \<Rightarrow> ViewManager" where
  "scrolls evs st = foldl (\<lambda>s (xOffset, yOffset). Mouse_Scroll_Callback xOffset yOffset s) st evs"

text \<open>
  The view after one scroll of three notches up, and the view after one switch to the
  orthographic mode.
\<close>

definition fasterView :: ViewManager where
  "fasterView = Mouse_Scroll_Callback 0 3 startView"

definition orthoView :: ViewManager where
  "orthoView = (case SwitchToOrthographic startView of Inl e \<Rightarrow> startView | Inr st \<Rightarrow> st)"

section \<open>The catalog lookups\<close>

text \<open>
  The loops are unfolded one step at a time, so their equations are not left to the
  simplifier.
\<close>

declare FindTextureSlot_loop.simps [simp del]

declare FindMaterial_loop.simps [simp del]

lemma FindMaterial_loop_found:
  "FindMaterial_loop ms tg index True material = material"
  by (simp add: FindMaterial_loop.simps)

lemma FindMaterial_loop_miss:
  "tg \<notin> mtag ` set (drop index ms) \<Longrightarrow> FindMaterial_loop ms tg index False material = material"
proof (induction "length ms - index" arbitrary: index)
  case 0
  then show ?case by (simp add: FindMaterial_loop.simps)
next
  case (Suc n)
  then have lt: "index < length ms" by simp
  then have d: "drop index ms = ms ! index # drop (Suc index) ms"
    by (simp add: Cons_nth_drop_Suc)
  from Suc.prems d have ne: "mtag (ms ! index) \<noteq> tg" and rest: "tg \<notin> mtag ` set (drop (Suc index) ms)"
    by auto
  from Suc.hyps(2) have "n = length ms - Suc index" by simp
  from Suc.hyps(1) [OF this rest] have "FindMaterial_loop ms tg (Suc index) False material = material" .
  with lt ne show ?case
    by (subst FindMaterial_loop.simps) simp
qed

lemma FindMaterial_loop_hit:
  "index < length ms \<Longrightarrow> mtag (ms ! index) = tg \<Longrightarrow>
   FindMaterial_loop ms tg index False material =
     material\<lparr>ambientColor := ambientColor (ms ! index),
              ambientStrength := ambientStrength (ms ! index),
              diffuseColor := diffuseColor (ms ! index),
              specularColor := specularColor (ms ! index),
              shininess := shininess (ms ! index)\<rparr>"
  by (subst FindMaterial_loop.simps) (simp add: FindMaterial_loop_found)

lemma FindMaterial_loop_skip:
  "index < length ms \<Longrightarrow> mtag (ms ! index) \<noteq> tg \<Longrightarrow>
   FindMaterial_loop ms tg index False material = FindMaterial_loop ms tg (Suc index) False material"
  by (subst FindMaterial_loop.simps) simp

lemma FindMaterial_loop_first:
  "i < length ms \<Longrightarrow> index \<le> i \<Longrightarrow> mtag (ms ! i) = tg \<Longrightarrow>
   (\<And>j. index \<le> j \<Longrightarrow> j < i \<Longrightarrow> mtag (ms ! j) \<noteq> tg) \<Longrightarrow>
   FindMaterial_loop ms tg index False material =
     material\<lparr>ambientColor := ambientColor (ms ! i),
              ambientStrength := ambientStrength (ms ! i),
              diffuseColor := diffuseColor (ms ! i),
              specularColor := specularColor (ms ! i),
              shininess := shininess (ms ! i)\<rparr>"
proof (induction "i - index" arbitrary: index)
  case 0
  then have "index = i" by simp
  with 0 show ?case by (simp add: FindMaterial_loop_hit)
next
  case (Suc n)
  then have lt: "index < i" by simp
  with Suc.prems have ne: "mtag (ms ! index) \<noteq> tg" by simp
  from Suc.hyps(2) have n: "n = i - Suc index" by simp
  have "FindMaterial_loop ms tg (Suc index) False material =
     material\<lparr>ambientColor := ambientColor (ms ! i),
              ambientStrength := ambientStrength (ms ! i),
              diffuseColor := diffuseColor (ms ! i),
              specularColor := specularColor (ms ! i),
              shininess := shininess (ms ! i)\<rparr>"
    using Suc.hyps(1) [OF n Suc.prems(1) _ Suc.prems(3)] lt Suc.prems(4) by simp
  with lt ne Suc.prems(1) show ?case
    by (simp add: FindMaterial_loop_skip)
qed

lemma FindTextureSlot_loop_found:
  "FindTextureSlot_loop st tg index True textureSlot = Inr textureSlot"
  by (simp add: FindTextureSlot_loop.simps)

lemma FindTextureSlot_loop_first:
  "0 \<le> index \<Longrightarrow> index \<le> i \<Longrightarrow> i < m_loadedTextures st \<Longrightarrow>
   m_loadedTextures st \<le> int (length (m_textureIDs st)) \<Longrightarrow>
   tag (m_textureIDs st ! nat i) = tg \<Longrightarrow>
   (\<And>j. index \<le> j \<Longrightarrow> j < i \<Longrightarrow> tag (m_textureIDs st ! nat j) \<noteq> tg) \<Longrightarrow>
   FindTextureSlot_loop st tg index False textureSlot = Inr i"
proof (induction "nat (i - index)" arbitrary: index)
  case 0
  then have "index = i" by simp
  with 0 show ?case
    by (subst FindTextureSlot_loop.simps) (simp add: FindTextureSlot_loop_found)
next
  case (Suc n)
  then have lt: "index < i" by linarith
  with Suc.prems have ne: "tag (m_textureIDs st ! nat index) \<noteq> tg" by simp
  from Suc.hyps(2) have n: "n = nat (i - (index + 1))" by linarith
  have "FindTextureSlot_loop st tg (index + 1) False textureSlot = Inr i"
    using Suc.hyps(1) [OF n _ _ Suc.prems(3) Suc.prems(4) Suc.prems(5)] lt Suc.prems(1) Suc.prems(6)
    by simp
  with lt ne Suc.prems show ?case
    by (subst FindTextureSlot_loop.simps) simp
qed

lemma FindTextureSlot_loop_absent:
  "0 \<le> index \<Longrightarrow> m_loadedTextures st \<le> int (length (m_textureIDs st)) \<Longrightarrow>
   (\<And>j. index \<le> j \<Longrightarrow> j < m_loadedTextures st \<Longrightarrow> tag (m_textureIDs st ! nat j) \<noteq> tg) \<Longrightarrow>
   FindTextureSlot_loop st tg index False textureSlot = Inr textureSlot"
proof (induction "nat (m_loadedTextures st - index)" arbitrary: index)
  case 0
  then show ?case
    by (subst FindTextureSlot_loop.simps) simp
next
  case (Suc n)
  then have lt: "index < m_loadedTextures st" by linarith
  with Suc.prems have ne: "tag (m_textureIDs st ! nat index) \<noteq> tg" by simp
  from Suc.hyps(2) have n: "n = nat (m_loadedTextures st - (index + 1))" by linarith
  have "FindTextureSlot_loop st tg (index + 1) False textureSlot = Inr textureSlot"
    using Suc.hyps(1) [OF n _ Suc.prems(2)] Suc.prems(1) Suc.prems(3) by simp
  with lt ne Suc.prems show ?case
    by (subst FindTextureSlot_loop.simps) simp
qed

text \<open>
  The texture lookup, on a catalog whose count fits the array: the index of the first
  slot in use whose tag matches, and \<open>-1\<close> when none matches. Nothing restricts the
  tag (it may be empty) or forbids a tag to occur twice.
\<close>

lemma FindTextureSlot_first_match:
  assumes "0 \<le> i" "i < m_loadedTextures st"
    and "m_loadedTextures st \<le> int (length (m_textureIDs st))"
    and "tag (m_textureIDs st ! nat i) = tg"
    and "\<And>j. 0 \<le> j \<Longrightarrow> j < i \<Longrightarrow> tag (m_textureIDs st ! nat j) \<noteq> tg"
  shows "FindTextureSlot tg st = Inr i"
  unfolding FindTextureSlot_def
  using assms by (intro FindTextureSlot_loop_first) auto

lemma FindTextureSlot_absent:
  assumes "m_loadedTextures st \<le> int (length (m_textureIDs st))"
    and "\<And>j. 0 \<le> j \<Longrightarrow> j < m_loadedTextures st \<Longrightarrow> tag (m_textureIDs st ! nat j) \<noteq> tg"
  shows "FindTextureSlot tg st = Inr (- 1)"
  unfolding FindTextureSlot_def
  using assms by (intro FindTextureSlot_loop_absent) auto

text \<open>
  The material lookup reports \<open>true\<close> with the coefficients of the first entry whose
  tag matches, and \<open>false\<close> on an empty catalog.
\<close>

lemma FindMaterial_first_match:
  assumes "i < length (m_objectMaterials st)"
    and "mtag (m_objectMaterials st ! i) = tg"
    and "\<And>j. j < i \<Longrightarrow> mtag (m_objectMaterials st ! j) \<noteq> tg"
  shows "FindMaterial tg material st =
     (True, material\<lparr>ambientColor := ambientColor (m_objectMaterials st ! i),
              ambientStrength := ambientStrength (m_objectMaterials st ! i),
              diffuseColor := diffuseColor (m_objectMaterials st ! i),
              specularColor := specularColor (m_objectMaterials st ! i),
              shininess := shininess (m_objectMaterials st ! i)\<rparr>)"
proof -
  from assms(1) have "length (m_objectMaterials st) \<noteq> 0" by auto
  then show ?thesis
    unfolding FindMaterial_def
    using FindMaterial_loop_first [of i "m_objectMaterials st" 0 tg material] assms
    by simp
qed

lemma FindMaterial_empty:
  "m_objectMaterials st = [] \<Longrightarrow> FindMaterial tg material st = (False, material)"
  by (simp add: FindMaterial_def)

lemma DefineObjectMaterials_tags:
  "map mtag (m_objectMaterials (DefineObjectMaterials (SceneManager_new p))) =
     [''grass'', ''dirt'', ''brick'', ''hedge'', ''foliage'']"
  by (simp add: DefineObjectMaterials_def SceneManager_new_def)

text \<open>
  Claim C6. The claim: for every tag and every catalog, the texture lookup returns the
  index of the first matching entry and the material lookup resolves the first matching
  entry; when nothing matches, the texture lookup returns \<open>-1\<close> and the material lookup
  a not-found result. The lemmas above give the first-match part of it. The not-found
  part fails for materials: \<^verbatim>\<open>FindMaterial\<close> ends with \<^verbatim>\<open>return(true)\<close>, so on a
  catalog that is not empty it reports found for a tag that no entry carries, and leaves
  the caller's material as it was.
\<close>

theorem FindMaterial_miss_reports_found:
  assumes "m_objectMaterials st \<noteq> []"
    and "tg \<notin> mtag ` set (m_objectMaterials st)"
  shows "FindMaterial tg material st = (True, material)"
  using assms by (simp add: FindMaterial_def FindMaterial_loop_miss)

theorem FindMaterial_miss_reports_found_witness:
  "FindMaterial ''stone'' stale (DefineObjectMaterials (SceneManager_new None)) = (True, stale)"
proof -
  let ?st = "DefineObjectMaterials (SceneManager_new None)"
  have tags: "mtag ` set (m_objectMaterials ?st) = set [''grass'', ''dirt'', ''brick'', ''hedge'', ''foliage'']"
    using DefineObjectMaterials_tags [of None] by (metis set_map)
  have a: "m_objectMaterials ?st \<noteq> []"
    by (simp add: DefineObjectMaterials_def)
  have b: "''stone'' \<notin> mtag ` set (m_objectMaterials ?st)"
    unfolding tags by simp
  show ?thesis
    using FindMaterial_miss_reports_found [OF a b] .
qed

section \<open>Uploading the material\<close>

text \<open>
  Claim C1. The claim: for a tag absent from a non-empty material catalog,
  \<^verbatim>\<open>SetShaderMaterial\<close> uploads no material uniform. The code does otherwise: the
  lookup reports found, and the five uniforms are uploaded from the local \<open>material\<close>
  that the lookup never filled.
\<close>

theorem SetShaderMaterial_miss_uploads:
  assumes "m_objectMaterials st \<noteq> []"
    and "materialTag \<notin> mtag ` set (m_objectMaterials st)"
    and "m_pShaderManager st = Some sh"
  shows "SetShaderMaterial materialTag uninitialized st =
     Inr (st\<lparr>m_pShaderManager := Some (sh @
       [(''material.ambientColor'', Vec3Value (ambientColor uninitialized)),
        (''material.ambientStrength'', FloatValue (ambientStrength uninitialized)),
        (''material.diffuseColor'', Vec3Value (diffuseColor uninitialized)),
        (''material.specularColor'', Vec3Value (specularColor uninitialized)),
        (''material.shininess'', FloatValue (shininess uninitialized))])\<rparr>)"
proof -
  have "FindMaterial materialTag uninitialized st = (True, uninitialized)"
    using assms(1,2) by (simp add: FindMaterial_def FindMaterial_loop_miss)
  with assms(1,3) show ?thesis
    by (simp add: SetShaderMaterial_def setVec3Value_def setFloatValue_def)
qed

theorem SetShaderMaterial_miss_uploads_witness:
  "SetShaderMaterial ''stone'' stale (DefineObjectMaterials (SceneManager_new (Some []))) =
     Inr ((DefineObjectMaterials (SceneManager_new (Some [])))\<lparr>m_pShaderManager := Some
       [(''material.ambientColor'', Vec3Value (Vec3 9 9 9)),
        (''material.ambientStrength'', FloatValue 7),
        (''material.diffuseColor'', Vec3Value (Vec3 8 8 8)),
        (''material.specularColor'', Vec3Value (Vec3 6 6 6)),
        (''material.shininess'', FloatValue 3)]\<rparr>)"
proof -
  let ?st = "DefineObjectMaterials (SceneManager_new (Some []))"
  have tags: "mtag ` set (m_objectMaterials ?st) = set [''grass'', ''dirt'', ''brick'', ''hedge'', ''foliage'']"
    using DefineObjectMaterials_tags [of "Some []"] by (metis set_map)
  have a: "m_objectMaterials ?st \<noteq> []"
    by (simp add: DefineObjectMaterials_def)
  have b: "''stone'' \<notin> mtag ` set (m_objectMaterials ?st)"
    unfolding tags by simp
  have c: "m_pShaderManager ?st = Some []"
    by (simp add: DefineObjectMaterials_def SceneManager_new_def)
  show ?thesis
    using SetShaderMaterial_miss_uploads [OF a b c, of stale] by (simp add: stale_def)
qed

text \<open>
  Claim C10. With a null shader manager, \<^verbatim>\<open>SetTransformations\<close>, \<^verbatim>\<open>SetShaderColor\<close>,
  \<^verbatim>\<open>SetShaderTexture\<close> and \<^verbatim>\<open>SetTextureUVScale\<close> do nothing, while
  \<^verbatim>\<open>SetShaderMaterial\<close> dereferences the null pointer whenever the material catalog is
  not empty (the lookup then reports found).
\<close>

theorem null_shader_guards:
  assumes "m_pShaderManager st = None"
  shows "SetTransformations scaleXYZ xr yr zr positionXYZ st = st
       \<and> SetShaderColor r g b a st = st
       \<and> SetShaderTexture textureTag st = Inr st
       \<and> SetTextureUVScale u v st = st
       \<and> SetShaderMaterial materialTag uninitialized st =
           (if m_objectMaterials st = [] then Inr st else Inl NullPointerDereference)"
  using assms
  by (simp add: SetTransformations_def SetShaderColor_def SetShaderTexture_def
      SetTextureUVScale_def SetShaderMaterial_def FindMaterial_def)

theorem null_shader_guards_witness:
  "SetTransformations (Vec3 2 1 1) 0 90 0 (Vec3 1 0 0) (DefineObjectMaterials (SceneManager_new None))
     = DefineObjectMaterials (SceneManager_new None)
   \<and> SetShaderColor 1 1 1 1 (DefineObjectMaterials (SceneManager_new None))
     = DefineObjectMaterials (SceneManager_new None)
   \<and> SetShaderTexture ''grass'' (DefineObjectMaterials (SceneManager_new None))
     = Inr (DefineObjectMaterials (SceneManager_new None))
   \<and> SetTextureUVScale 4 4 (DefineObjectMaterials (SceneManager_new None))
     = DefineObjectMaterials (SceneManager_new None)
   \<and> SetShaderMaterial ''grass'' stale (DefineObjectMaterials (SceneManager_new None))
     = Inl NullPointerDereference"
proof -
  let ?st = "DefineObjectMaterials (SceneManager_new None)"
  have a: "m_pShaderManager ?st = None"
    by (simp add: DefineObjectMaterials_def SceneManager_new_def)
  have b: "m_objectMaterials ?st \<noteq> []"
    by (simp add: DefineObjectMaterials_def)
  show ?thesis
    using null_shader_guards [OF a, of "Vec3 2 1 1" 0 90 0 "Vec3 1 0 0" 1 1 1 1 "''grass''" 4 4 "''grass''" stale] b
    by simp
qed

section \<open>Loading a texture\<close>

lemma textureCatalog_append:
  assumes "0 \<le> m_loadedTextures st" "m_loadedTextures st < int (length (m_textureIDs st))"
  shows "textureCatalog (st\<lparr>m_textureIDs := (m_textureIDs st)[nat (m_loadedTextures st) := e],
                            m_loadedTextures := m_loadedTextures st + 1\<rparr>)
         = textureCatalog st @ [e]"
proof -
  let ?n = "nat (m_loadedTextures st)"
  have n: "?n < length (m_textureIDs st)" using assms by linarith
  have s: "nat (m_loadedTextures st + 1) = Suc ?n" using assms by linarith
  show ?thesis
    unfolding textureCatalog_def using n
    by (simp add: s take_Suc_conv_app_nth)
qed

text \<open>
  Claim C4, as stated, promises success and one more catalog entry for every image that
  decodes with 3 or 4 channels. With every slot of the array in use the unguarded write
  falls outside the array.
\<close>

theorem CreateGLTexture_full_array:
  "CreateGLTexture (\<lambda>f. Some rgbImage) 17 ''textures/stone.jpg'' ''stone'' fullScene
     = Inl ArrayIndexOutOfBounds"
  by (simp add: CreateGLTexture_def fullScene_def SceneManager_new_def rgbImage_def)

text \<open>
  Claim C4, amended. For an image that decodes with 3 or 4 channels, while
  \<open>m_loadedTextures\<close> indexes a slot of the texture array, \<^verbatim>\<open>CreateGLTexture\<close>
  returns \<open>true\<close> and the catalog gains exactly the new entry at its end. For a file
  that does not decode, or that decodes with another channel count, it returns \<open>false\<close>
  and the scene manager is unchanged.
\<close>

theorem CreateGLTexture_channels:
  "(stbi_load filename = Some img \<and> (colorChannels img = 3 \<or> colorChannels img = 4)
      \<and> 0 \<le> m_loadedTextures st \<and> m_loadedTextures st < int (length (m_textureIDs st))
    \<longrightarrow> (\<exists>st'. CreateGLTexture stbi_load textureID filename tg st = Inr (True, st')
          \<and> textureCatalog st' = textureCatalog st @ [\<lparr>ID = textureID, tag = tg\<rparr>]
          \<and> length (textureCatalog st') = length (textureCatalog st) + 1
          \<and> m_loadedTextures st' = m_loadedTextures st + 1
          \<and> m_objectMaterials st' = m_objectMaterials st
          \<and> m_pShaderManager st' = m_pShaderManager st))
   \<and> (stbi_load filename = None
        \<or> (\<exists>img. stbi_load filename = Some img \<and> colorChannels img \<noteq> 3 \<and> colorChannels img \<noteq> 4)
    \<longrightarrow> CreateGLTexture stbi_load textureID filename tg st = Inr (False, st))"
proof (intro conjI impI)
  assume a: "stbi_load filename = Some img \<and> (colorChannels img = 3 \<or> colorChannels img = 4)
      \<and> 0 \<le> m_loadedTextures st \<and> m_loadedTextures st < int (length (m_textureIDs st))"
  let ?st' = "st\<lparr>m_textureIDs := (m_textureIDs st)[nat (m_loadedTextures st) := \<lparr>ID = textureID, tag = tg\<rparr>],
                 m_loadedTextures := m_loadedTextures st + 1\<rparr>"
  from a have r: "CreateGLTexture stbi_load textureID filename tg st = Inr (True, ?st')"
    by (auto simp add: CreateGLTexture_def)
  from a have c: "textureCatalog ?st' = textureCatalog st @ [\<lparr>ID = textureID, tag = tg\<rparr>]"
    by (intro textureCatalog_append) auto
  from r c show "\<exists>st'. CreateGLTexture stbi_load textureID filename tg st = Inr (True, st')
          \<and> textureCatalog st' = textureCatalog st @ [\<lparr>ID = textureID, tag = tg\<rparr>]
          \<and> length (textureCatalog st') = length (textureCatalog st) + 1
          \<and> m_loadedTextures st' = m_loadedTextures st + 1
          \<and> m_objectMaterials st' = m_objectMaterials st
          \<and> m_pShaderManager st' = m_pShaderManager st"
    by (intro exI [of _ ?st']) simp
next
  assume "stbi_load filename = None
        \<or> (\<exists>img. stbi_load filename = Some img \<and> colorChannels img \<noteq> 3 \<and> colorChannels img \<noteq> 4)"
  then show "CreateGLTexture stbi_load textureID filename tg st = Inr (False, st)"
    by (auto simp add: CreateGLTexture_def)
qed

theorem CreateGLTexture_channels_witness:
  "CreateGLTexture (\<lambda>f. Some rgbImage) 17 ''textures/stone.jpg'' ''stone'' (SceneManager_new None)
     = Inr (True, (SceneManager_new None)
         \<lparr>m_textureIDs := \<lparr>ID = 17, tag = ''stone''\<rparr> # replicate 15 \<lparr>ID = 0, tag = []\<rparr>,
          m_loadedTextures := 1\<rparr>)
   \<and> CreateGLTexture (\<lambda>f. Some grayImage) 17 ''textures/stone.jpg'' ''stone'' (SceneManager_new None)
     = Inr (False, SceneManager_new None)
   \<and> CreateGLTexture (\<lambda>f. None) 17 ''textures/stone.jpg'' ''stone'' (SceneManager_new None)
     = Inr (False, SceneManager_new None)"
proof -
  let ?st = "SceneManager_new None"
  have r: "replicate 16 \<lparr>ID = 0, tag = []\<rparr> = \<lparr>ID = 0, tag = []\<rparr> # replicate 15 \<lparr>ID = 0, tag = []\<rparr>"
    by (simp add: numeral_eq_Suc)
  have 1: "CreateGLTexture (\<lambda>f. Some rgbImage) 17 ''textures/stone.jpg'' ''stone'' ?st
     = Inr (True, ?st\<lparr>m_textureIDs := \<lparr>ID = 17, tag = ''stone''\<rparr> # replicate 15 \<lparr>ID = 0, tag = []\<rparr>,
          m_loadedTextures := 1\<rparr>)"
    using CreateGLTexture_channels [of "\<lambda>f. Some rgbImage" "''textures/stone.jpg''" rgbImage ?st 17 "''stone''"]
    by (simp add: rgbImage_def SceneManager_new_def CreateGLTexture_def r)
  have 2: "CreateGLTexture (\<lambda>f. Some grayImage) 17 ''textures/stone.jpg'' ''stone'' ?st = Inr (False, ?st)"
    using CreateGLTexture_channels [of "\<lambda>f. Some grayImage" "''textures/stone.jpg''" rgbImage ?st 17 "''stone''"]
    by (simp add: grayImage_def)
  have 3: "CreateGLTexture (\<lambda>f. None) 17 ''textures/stone.jpg'' ''stone'' ?st = Inr (False, ?st)"
    using CreateGLTexture_channels [of "\<lambda>f. None" "''textures/stone.jpg''" rgbImage ?st 17 "''stone''"]
    by simp
  from 1 2 3 show ?thesis by simp
qed

section \<open>The model matrix\<close>

lemma mat4_mul_vec4_add4:
  "mat4_mul_vec4 A (add4 u v) = add4 (mat4_mul_vec4 A u) (mat4_mul_vec4 A v)"
proof -
  obtain c0 c1 c2 c3 where A: "A = Mat4 c0 c1 c2 c3" by (cases A)
  obtain a b c d where u: "u = Vec4 a b c d" by (cases u)
  obtain e f g h where v: "v = Vec4 e f g h" by (cases v)
  show ?thesis
    unfolding A u v
    by (cases c0; cases c1; cases c2; cases c3) (simp add: algebra_simps)
qed

lemma mat4_mul_vec4_scale4:
  "mat4_mul_vec4 A (scale4 k v) = scale4 k (mat4_mul_vec4 A v)"
proof -
  obtain c0 c1 c2 c3 where A: "A = Mat4 c0 c1 c2 c3" by (cases A)
  obtain e f g h where v: "v = Vec4 e f g h" by (cases v)
  show ?thesis
    unfolding A v
    by (cases c0; cases c1; cases c2; cases c3) (simp add: algebra_simps)
qed

lemma mat4_mul_apply:
  "mat4_mul_vec4 (mat4_mul A B) v = mat4_mul_vec4 A (mat4_mul_vec4 B v)"
proof -
  obtain b0 b1 b2 b3 where B: "B = Mat4 b0 b1 b2 b3" by (cases B)
  obtain x y z w where v: "v = Vec4 x y z w" by (cases v)
  show ?thesis
    unfolding B v
    by (simp add: mat4_mul_vec4_add4 mat4_mul_vec4_scale4)
qed

lemma radians_90: "radians 90 = pi / 2"
  by (simp add: radians_def)

lemma radians_0: "radians 0 = 0"
  by (simp add: radians_def)

lemma glm_rotate_0: "glm_rotate 0 (Vec3 1 0 0) = Mat4 (Vec4 1 0 0 0) (Vec4 0 1 0 0) (Vec4 0 0 1 0) (Vec4 0 0 0 1)"
  "glm_rotate 0 (Vec3 0 0 1) = Mat4 (Vec4 1 0 0 0) (Vec4 0 1 0 0) (Vec4 0 0 1 0) (Vec4 0 0 0 1)"
  by (simp_all add: glm_rotate_def glm_normalize_def)

lemma glm_rotate_Y_quarter:
  "glm_rotate (pi / 2) (Vec3 0 1 0) = Mat4 (Vec4 0 0 (- 1) 0) (Vec4 0 1 0 0) (Vec4 1 0 0 0) (Vec4 0 0 0 1)"
  by (simp add: glm_rotate_def glm_normalize_def)

lemma modelView_golden:
  "modelView (Vec3 2 1 1) 0 90 0 (Vec3 1 0 0) =
     Mat4 (Vec4 0 0 (- 2) 0) (Vec4 0 1 0 0) (Vec4 1 0 0 0) (Vec4 1 0 0 1)"
  by (simp add: modelView_def radians_90 radians_0 glm_rotate_0 glm_rotate_Y_quarter)

text \<open>
  Claim C5. \<^verbatim>\<open>SetTransformations\<close> uploads, as the uniform \<open>model\<close>, the matrix
  \<open>Translation \<times> RotationX \<times> RotationY \<times> RotationZ \<times> Scale\<close>: applied to a vector, it
  scales first, then rotates about Z, Y and X, then translates. For scale \<open>(2,1,1)\<close>,
  rotation \<open>(0,90,0)\<close> and translation \<open>(1,0,0)\<close> it maps \<open>(0,0,0,1)\<close> to \<open>(1,0,0,1)\<close>
  and \<open>(1,0,0,1)\<close> to \<open>(1,0,-2,1)\<close>.
\<close>

theorem SetTransformations_composition:
  "(m_pShaderManager st = Some sh \<longrightarrow>
      SetTransformations scaleXYZ xr yr zr positionXYZ st =
        st\<lparr>m_pShaderManager := Some (sh @ [(''model'', Mat4Value (modelView scaleXYZ xr yr zr positionXYZ))])\<rparr>)
   \<and> mat4_mul_vec4 (modelView scaleXYZ xr yr zr positionXYZ) v =
       mat4_mul_vec4 (glm_translate positionXYZ)
        (mat4_mul_vec4 (glm_rotate (radians xr) (Vec3 1 0 0))
          (mat4_mul_vec4 (glm_rotate (radians yr) (Vec3 0 1 0))
            (mat4_mul_vec4 (glm_rotate (radians zr) (Vec3 0 0 1))
              (mat4_mul_vec4 (glm_scale scaleXYZ) v))))
   \<and> mat4_mul_vec4 (modelView (Vec3 2 1 1) 0 90 0 (Vec3 1 0 0)) (Vec4 0 0 0 1) = Vec4 1 0 0 1
   \<and> mat4_mul_vec4 (modelView (Vec3 2 1 1) 0 90 0 (Vec3 1 0 0)) (Vec4 1 0 0 1) = Vec4 1 0 (- 2) 1"
proof (intro conjI impI)
  assume "m_pShaderManager st = Some sh"
  then show "SetTransformations scaleXYZ xr yr zr positionXYZ st =
        st\<lparr>m_pShaderManager := Some (sh @ [(''model'', Mat4Value (modelView scaleXYZ xr yr zr positionXYZ))])\<rparr>"
    by (simp add: SetTransformations_def setMat4Value_def g_ModelName_def)
next
  show "mat4_mul_vec4 (modelView scaleXYZ xr yr zr positionXYZ) v =
       mat4_mul_vec4 (glm_translate positionXYZ)
        (mat4_mul_vec4 (glm_rotate (radians xr) (Vec3 1 0 0))
          (mat4_mul_vec4 (glm_rotate (radians yr) (Vec3 0 1 0))
            (mat4_mul_vec4 (glm_rotate (radians zr) (Vec3 0 0 1))
              (mat4_mul_vec4 (glm_scale scaleXYZ) v))))"
    by (simp only: modelView_def Let_def mat4_mul_apply)
next
  show "mat4_mul_vec4 (modelView (Vec3 2 1 1) 0 90 0 (Vec3 1 0 0)) (Vec4 0 0 0 1) = Vec4 1 0 0 1"
    by (simp add: modelView_golden)
next
  show "mat4_mul_vec4 (modelView (Vec3 2 1 1) 0 90 0 (Vec3 1 0 0)) (Vec4 1 0 0 1) = Vec4 1 0 (- 2) 1"
    by (simp add: modelView_golden)
qed

theorem SetTransformations_composition_witness:
  "SetTransformations (Vec3 2 1 1) 0 90 0 (Vec3 1 0 0) (SceneManager_new (Some [])) =
     (SceneManager_new (Some []))\<lparr>m_pShaderManager := Some
        [(''model'', Mat4Value (Mat4 (Vec4 0 0 (- 2) 0) (Vec4 0 1 0 0) (Vec4 1 0 0 0) (Vec4 1 0 0 1)))]\<rparr>"
proof -
  have a: "m_pShaderManager (SceneManager_new (Some [])) = Some []"
    by (simp add: SceneManager_new_def)
  show ?thesis
    using SetTransformations_composition
      [of "SceneManager_new (Some [])" "[]" "Vec3 2 1 1" 0 90 0 "Vec3 1 0 0" "Vec4 0 0 0 1"] a
    by (simp add: modelView_golden)
qed

section \<open>The camera's orientation update\<close>

lemma constrainPitch_id: "- 89 \<le> p \<Longrightarrow> p \<le> 89 \<Longrightarrow> constrainPitch p = p"
  by (simp add: constrainPitch_def)

lemma constrainPitch_idem: "constrainPitch (constrainPitch p) = constrainPitch p"
  by (simp add: constrainPitch_def)

lemma ProcessMouseMovement_zero:
  "ProcessMouseMovement 0 0 c = updateCameraVectors (c\<lparr>Pitch := constrainPitch (Pitch c)\<rparr>)"
  by (simp add: ProcessMouseMovement_def)

lemma updateCameraVectors_fields:
  "Position (updateCameraVectors c) = Position c"
  "Yaw (updateCameraVectors c) = Yaw c"
  "Pitch (updateCameraVectors c) = Pitch c"
  "Zoom (updateCameraVectors c) = Zoom c"
  "MovementSpeed (updateCameraVectors c) = MovementSpeed c"
  "MouseSensitivity (updateCameraVectors c) = MouseSensitivity c"
  "WorldUp (updateCameraVectors c) = WorldUp c"
  "Front (updateCameraVectors c) = frontOf (Yaw c) (Pitch c)"
  by (simp_all add: updateCameraVectors_def Let_def)

lemma ProcessMouseMovement_settled:
  "ProcessMouseMovement 0 0 (ProcessMouseMovement x y c) = ProcessMouseMovement x y c"
  by (simp add: ProcessMouseMovement_def updateCameraVectors_def Let_def constrainPitch_idem)

lemma startView_camera: "g_pCamera startView = Some startCamera"
  by (simp add: startView_def ViewManager_new_def startCamera_def Let_def)

lemma startView_flags: "\<not> bOrthographicProjection startView" "cameraStatesInitialized startView"
  by (simp_all add: startView_def ViewManager_new_def globals_def Let_def)

lemma startView_slots:
  "orthographicPosition startView = Vec3 0 15 0" "orthographicYaw startView = - 90"
  "orthographicPitch startView = - 89"
  by (simp_all add: startView_def ViewManager_new_def Let_def)

lemma startCamera_fields:
  "Yaw startCamera = - 90" "Pitch startCamera = 0" "Front startCamera = Vec3 0 (- (1 / 2)) (- 2)"
  "Position startCamera = Vec3 0 5 12" "Zoom startCamera = 80" "MovementSpeed startCamera = 5 / 2"
  by (simp_all add: startCamera_def Camera_new_def updateCameraVectors_def Let_def)

lemma frontOf_start: "frontOf (- 90) 0 = Vec3 0 0 (- 1)"
proof -
  have "radians (- 90) = - (pi / 2)" by (simp add: radians_def)
  then show ?thesis
    by (simp add: frontOf_def glm_normalize_def radians_def)
qed

section \<open>Switching the projection\<close>

lemma SwitchToOrthographic_state:
  assumes "\<not> bOrthographicProjection st" "cameraStatesInitialized st" "g_pCamera st = Some c"
  shows "SwitchToOrthographic st =
     Inr (st\<lparr>perspectivePosition := Position c,
             perspectiveFront := Front c,
             perspectiveUp := Up c,
             perspectiveYaw := Yaw c,
             perspectivePitch := Pitch c,
             g_pCamera := Some (updateCameraVectors
               (c\<lparr>Position := orthographicPosition st, Yaw := orthographicYaw st,
                  Pitch := constrainPitch (orthographicPitch st)\<rparr>)),
             bOrthographicProjection := True\<rparr>)"
  using assms by (simp add: SwitchToOrthographic_def ProcessMouseMovement_def updateCameraVectors_def Let_def)

lemma SwitchToPerspective_state:
  assumes "bOrthographicProjection st" "cameraStatesInitialized st" "g_pCamera st = Some c"
  shows "SwitchToPerspective st =
     Inr (st\<lparr>orthographicPosition := Position c,
             orthographicFront := Front c,
             orthographicUp := Up c,
             orthographicYaw := Yaw c,
             orthographicPitch := Pitch c,
             g_pCamera := Some (updateCameraVectors
               (c\<lparr>Position := perspectivePosition st, Yaw := perspectiveYaw st,
                  Pitch := constrainPitch (perspectivePitch st)\<rparr>)),
             bOrthographicProjection := False\<rparr>)"
  using assms by (simp add: SwitchToPerspective_def ProcessMouseMovement_def updateCameraVectors_def Let_def)

lemma round_trip_state:
  assumes "\<not> bOrthographicProjection st" "cameraStatesInitialized st" "g_pCamera st = Some c"
  shows "andThen (SwitchToOrthographic st) SwitchToPerspective =
     Inr (st\<lparr>perspectivePosition := Position c,
             perspectiveFront := Front c,
             perspectiveUp := Up c,
             perspectiveYaw := Yaw c,
             perspectivePitch := Pitch c,
             orthographicPosition := orthographicPosition st,
             orthographicFront := frontOf (orthographicYaw st) (constrainPitch (orthographicPitch st)),
             orthographicUp := Up (updateCameraVectors
                (c\<lparr>Yaw := orthographicYaw st, Pitch := constrainPitch (orthographicPitch st)\<rparr>)),
             orthographicYaw := orthographicYaw st,
             orthographicPitch := constrainPitch (orthographicPitch st),
             g_pCamera := Some (updateCameraVectors (c\<lparr>Pitch := constrainPitch (Pitch c)\<rparr>)),
             bOrthographicProjection := False\<rparr>)"
  using assms
  by (simp add: andThen_def SwitchToOrthographic_def SwitchToPerspective_def
      ProcessMouseMovement_def updateCameraVectors_def Let_def)

text \<open>
  Claim C8. Calling \<^verbatim>\<open>SwitchToOrthographic\<close> twice in a row gives the state, camera
  pose and mode included, that one call gives: the second call does nothing.
\<close>

theorem SwitchToOrthographic_idempotent:
  "andThen (SwitchToOrthographic st) SwitchToOrthographic = SwitchToOrthographic st"
  by (simp add: andThen_def SwitchToOrthographic_def split: option.split)

text \<open>
  Claim C2, as stated, has the toggle to orthographic and back restore position, front,
  up, yaw and pitch exactly. Each switch ends with a zero-offset orientation update,
  which recomputes front and up from yaw and pitch: the front vector \<open>(0, -0.5, -2)\<close>
  that the constructor sets comes back as \<open>(0, 0, -1)\<close>.
\<close>

theorem toggle_round_trip_changes_front:
  "map_option Front (g_pCamera startView) = Some (Vec3 0 (- (1 / 2)) (- 2))
   \<and> (case andThen (SwitchToOrthographic startView) SwitchToPerspective of
        Inl e \<Rightarrow> None
      | Inr st' \<Rightarrow> map_option Front (g_pCamera st')) = Some (Vec3 0 0 (- 1))"
proof -
  have "c\<lparr>Pitch := constrainPitch (Pitch c)\<rparr> = c" if "Pitch c = 0" for c :: Camera
    using that by (simp add: constrainPitch_def)
  then have "startCamera\<lparr>Pitch := constrainPitch (Pitch startCamera)\<rparr> = startCamera"
    by (simp add: startCamera_fields)
  then show ?thesis
    using round_trip_state [OF startView_flags startView_camera]
    by (simp add: startView_camera startCamera_fields updateCameraVectors_fields frontOf_start)
qed

text \<open>
  Claim C2, amended. From the perspective mode, with the camera's pitch within
  \<open>[-89, 89]\<close> (where every orientation update leaves it), switching to orthographic
  and back succeeds, ends in perspective mode, and restores position, yaw and pitch
  exactly; front and up are the vectors recomputed from that yaw and pitch, and the live
  camera is the pre-toggle camera with its basis vectors recomputed.
\<close>

theorem toggle_round_trip:
  assumes "\<not> bOrthographicProjection st" and "cameraStatesInitialized st"
    and "g_pCamera st = Some c" and "- 89 \<le> Pitch c" and "Pitch c \<le> 89"
  shows "\<exists>st'. andThen (SwitchToOrthographic st) SwitchToPerspective = Inr st'
           \<and> \<not> bOrthographicProjection st'
           \<and> g_pCamera st' = Some (updateCameraVectors c)
           \<and> Position (updateCameraVectors c) = Position c
           \<and> Yaw (updateCameraVectors c) = Yaw c
           \<and> Pitch (updateCameraVectors c) = Pitch c
           \<and> Front (updateCameraVectors c) = frontOf (Yaw c) (Pitch c)
           \<and> Up (updateCameraVectors c) =
               glm_normalize (cross (glm_normalize (cross (frontOf (Yaw c) (Pitch c)) (WorldUp c)))
                                (frontOf (Yaw c) (Pitch c)))"
proof -
  have "c\<lparr>Pitch := constrainPitch (Pitch c)\<rparr> = c"
    using assms(4,5) by (simp add: constrainPitch_id)
  then show ?thesis
    using round_trip_state [OF assms(1,2,3)]
    by (simp add: updateCameraVectors_def Let_def)
qed

theorem toggle_round_trip_witness:
  "\<exists>st'. andThen (SwitchToOrthographic startView) SwitchToPerspective = Inr st'
         \<and> \<not> bOrthographicProjection st'
         \<and> g_pCamera st' = Some (updateCameraVectors startCamera)
         \<and> Position (updateCameraVectors startCamera) = Vec3 0 5 12
         \<and> Yaw (updateCameraVectors startCamera) = - 90
         \<and> Pitch (updateCameraVectors startCamera) = 0
         \<and> Front (updateCameraVectors startCamera) = Vec3 0 0 (- 1)"
proof -
  have p: "- 89 \<le> Pitch startCamera" "Pitch startCamera \<le> 89"
    by (simp_all add: startCamera_fields)
  show ?thesis
    using toggle_round_trip [OF startView_flags startView_camera p]
    by (auto simp add: startCamera_fields frontOf_start)
qed

text \<open>
  So a camera that an orientation update has already settled comes back whole.
\<close>

lemma settled_camera_round_trip:
  assumes "\<not> bOrthographicProjection st" and "cameraStatesInitialized st"
    and "g_pCamera st = Some (ProcessMouseMovement xoffset yoffset c)"
  shows "cameraOf (andThen (SwitchToOrthographic st) SwitchToPerspective) =
           Some (ProcessMouseMovement xoffset yoffset c)"
proof -
  have "updateCameraVectors ((ProcessMouseMovement xoffset yoffset c)
          \<lparr>Pitch := constrainPitch (Pitch (ProcessMouseMovement xoffset yoffset c))\<rparr>)
        = ProcessMouseMovement xoffset yoffset c"
    using ProcessMouseMovement_settled [of xoffset yoffset c]
    by (simp add: ProcessMouseMovement_zero)
  then show ?thesis
    by (simp add: cameraOf_def round_trip_state [OF assms])
qed

text \<open>
  Claim C3, as stated, has zoom and movement speed saved and loaded with the pose, and
  the stored pose loaded wholesale. The slots hold neither: after a scroll has raised the
  speed, the switch stores the same two slots and the live speed is the one from before
  the switch. Nor is the stored front vector the live one after the switch.
\<close>

lemma fasterView_camera:
  "g_pCamera fasterView = Some (startCamera\<lparr>MovementSpeed := 4\<rparr>)"
  by (simp add: fasterView_def Mouse_Scroll_Callback_def Let_def startCamera_def
      startView_def ViewManager_new_def globals_def MIN_CAMERA_SPEED_def MAX_CAMERA_SPEED_def)

lemma fasterView_flags: "\<not> bOrthographicProjection fasterView" "cameraStatesInitialized fasterView"
  by (simp_all add: fasterView_def Mouse_Scroll_Callback_def startView_camera Let_def startView_flags)

lemma fasterView_slots:
  "orthographicSlot fasterView = orthographicSlot startView"
  "perspectiveSlot fasterView = perspectiveSlot startView"
  by (simp_all add: fasterView_def Mouse_Scroll_Callback_def startView_camera Let_def
      orthographicSlot_def perspectiveSlot_def)

theorem toggle_speed_not_in_slots:
  "orthographicSlot fasterView = orthographicSlot startView
   \<and> map_option MovementSpeed (g_pCamera startView) = Some (5 / 2)
   \<and> map_option MovementSpeed (g_pCamera fasterView) = Some 4
   \<and> map_option MovementSpeed (cameraOf (SwitchToOrthographic startView)) = Some (5 / 2)
   \<and> map_option MovementSpeed (cameraOf (SwitchToOrthographic fasterView)) = Some 4
   \<and> map_option perspectiveSlot (viewOf (SwitchToOrthographic fasterView)) =
       map_option perspectiveSlot (viewOf (SwitchToOrthographic startView))
   \<and> map_option orthographicSlot (viewOf (SwitchToOrthographic fasterView)) =
       map_option orthographicSlot (viewOf (SwitchToOrthographic startView))
   \<and> map_option Front (cameraOf (SwitchToOrthographic startView)) \<noteq> Some (orthographicFront startView)"
proof -
  have f: "orthographicFront startView = Vec3 0 (- 1) 0"
    by (simp add: startView_def ViewManager_new_def Let_def)
  have y: "orthographicYaw startView = - 90"
    by (simp add: startView_def ViewManager_new_def Let_def)
  have r: "radians (- 90) = - (pi / 2)" by (simp add: radians_def)
  have n: "frontOf (- 90) p \<noteq> Vec3 0 (- 1) 0" if "cos (radians p) \<noteq> 0" for p
  proof -
    have s: "sqrt ((sin (radians p))\<^sup>2 + (cos (radians p))\<^sup>2) = 1" by simp
    have "sqrt (sin (radians p) * sin (radians p) + cos (radians p) * cos (radians p)) = 1"
      using s by (simp add: power2_eq_square)
    then show ?thesis using that
      by (simp add: frontOf_def glm_normalize_def r)
  qed
  have p: "constrainPitch (orthographicPitch startView) = - 89"
    by (simp add: startView_def ViewManager_new_def Let_def constrainPitch_def)
  have c: "cos (radians (- 89)) \<noteq> 0"
  proof -
    have "- (pi / 2) < radians (- 89)" "radians (- 89) < pi / 2"
      using pi_gt_zero unfolding radians_def by linarith+
    then have "0 < cos (radians (- 89))" by (rule cos_gt_zero_pi)
    then show ?thesis by simp
  qed
  have 1: "map_option MovementSpeed (g_pCamera startView) = Some (5 / 2)"
    by (simp add: startView_camera startCamera_fields)
  have 2: "map_option MovementSpeed (g_pCamera fasterView) = Some 4"
    by (simp add: fasterView_camera)
  have 3: "map_option MovementSpeed (cameraOf (SwitchToOrthographic startView)) = Some (5 / 2)"
    by (simp add: cameraOf_def SwitchToOrthographic_state [OF startView_flags startView_camera]
        updateCameraVectors_fields startCamera_fields)
  have 4: "map_option MovementSpeed (cameraOf (SwitchToOrthographic fasterView)) = Some 4"
    by (simp add: cameraOf_def SwitchToOrthographic_state [OF fasterView_flags fasterView_camera]
        updateCameraVectors_fields)
  have 5: "map_option perspectiveSlot (viewOf (SwitchToOrthographic fasterView)) =
       map_option perspectiveSlot (viewOf (SwitchToOrthographic startView))"
    by (simp add: viewOf_def perspectiveSlot_def
        SwitchToOrthographic_state [OF startView_flags startView_camera]
        SwitchToOrthographic_state [OF fasterView_flags fasterView_camera])
  have 6: "map_option orthographicSlot (viewOf (SwitchToOrthographic fasterView)) =
       map_option orthographicSlot (viewOf (SwitchToOrthographic startView))"
    using fasterView_slots(1)
    by (simp add: viewOf_def orthographicSlot_def
        SwitchToOrthographic_state [OF startView_flags startView_camera]
        SwitchToOrthographic_state [OF fasterView_flags fasterView_camera])
  have 7: "map_option Front (cameraOf (SwitchToOrthographic startView)) \<noteq> Some (orthographicFront startView)"
    using n [OF c]
    by (simp add: cameraOf_def SwitchToOrthographic_state [OF startView_flags startView_camera]
        updateCameraVectors_fields f y p)
  from fasterView_slots(1) 1 2 3 4 5 6 7 show ?thesis by blast
qed

text \<open>
  Claim C3, amended. A switch that takes effect saves position, front, up, yaw and pitch
  of the live camera into the slot of the mode it leaves and keeps the other slot; the
  live camera takes position, yaw and pitch (kept within \<open>[-89, 89]\<close>) from the slot of
  the mode it enters, and its front and up are recomputed from that yaw and pitch. Zoom
  and movement speed belong to no slot: the switch leaves them as they were.
\<close>

theorem toggle_saves_and_loads:
  assumes "cameraStatesInitialized st" and "g_pCamera st = Some c"
  shows "(\<not> bOrthographicProjection st \<longrightarrow>
           (\<exists>st' c'. SwitchToOrthographic st = Inr st' \<and> g_pCamera st' = Some c'
              \<and> bOrthographicProjection st'
              \<and> perspectiveSlot st' = pose c
              \<and> orthographicSlot st' = orthographicSlot st
              \<and> c' = updateCameraVectors
                      (c\<lparr>Position := orthographicPosition st, Yaw := orthographicYaw st,
                         Pitch := constrainPitch (orthographicPitch st)\<rparr>)
              \<and> Position c' = orthographicPosition st
              \<and> Yaw c' = orthographicYaw st
              \<and> Pitch c' = constrainPitch (orthographicPitch st)
              \<and> Front c' = frontOf (Yaw c') (Pitch c')
              \<and> Zoom c' = Zoom c
              \<and> MovementSpeed c' = MovementSpeed c))
       \<and> (bOrthographicProjection st \<longrightarrow>
           (\<exists>st' c'. SwitchToPerspective st = Inr st' \<and> g_pCamera st' = Some c'
              \<and> \<not> bOrthographicProjection st'
              \<and> orthographicSlot st' = pose c
              \<and> perspectiveSlot st' = perspectiveSlot st
              \<and> c' = updateCameraVectors
                      (c\<lparr>Position := perspectivePosition st, Yaw := perspectiveYaw st,
                         Pitch := constrainPitch (perspectivePitch st)\<rparr>)
              \<and> Position c' = perspectivePosition st
              \<and> Yaw c' = perspectiveYaw st
              \<and> Pitch c' = constrainPitch (perspectivePitch st)
              \<and> Front c' = frontOf (Yaw c') (Pitch c')
              \<and> Zoom c' = Zoom c
              \<and> MovementSpeed c' = MovementSpeed c))"
proof (intro conjI impI)
  assume a: "\<not> bOrthographicProjection st"
  show "\<exists>st' c'. SwitchToOrthographic st = Inr st' \<and> g_pCamera st' = Some c'
              \<and> bOrthographicProjection st'
              \<and> perspectiveSlot st' = pose c
              \<and> orthographicSlot st' = orthographicSlot st
              \<and> c' = updateCameraVectors
                      (c\<lparr>Position := orthographicPosition st, Yaw := orthographicYaw st,
                         Pitch := constrainPitch (orthographicPitch st)\<rparr>)
              \<and> Position c' = orthographicPosition st
              \<and> Yaw c' = orthographicYaw st
              \<and> Pitch c' = constrainPitch (orthographicPitch st)
              \<and> Front c' = frontOf (Yaw c') (Pitch c')
              \<and> Zoom c' = Zoom c
              \<and> MovementSpeed c' = MovementSpeed c"
    by (simp add: SwitchToOrthographic_state [OF a assms] updateCameraVectors_fields
        perspectiveSlot_def orthographicSlot_def pose_def)
next
  assume a: "bOrthographicProjection st"
  show "\<exists>st' c'. SwitchToPerspective st = Inr st' \<and> g_pCamera st' = Some c'
              \<and> \<not> bOrthographicProjection st'
              \<and> orthographicSlot st' = pose c
              \<and> perspectiveSlot st' = perspectiveSlot st
              \<and> c' = updateCameraVectors
                      (c\<lparr>Position := perspectivePosition st, Yaw := perspectiveYaw st,
                         Pitch := constrainPitch (perspectivePitch st)\<rparr>)
              \<and> Position c' = perspectivePosition st
              \<and> Yaw c' = perspectiveYaw st
              \<and> Pitch c' = constrainPitch (perspectivePitch st)
              \<and> Front c' = frontOf (Yaw c') (Pitch c')
              \<and> Zoom c' = Zoom c
              \<and> MovementSpeed c' = MovementSpeed c"
    by (simp add: SwitchToPerspective_state [OF a assms] updateCameraVectors_fields
        perspectiveSlot_def orthographicSlot_def pose_def)
qed

lemma orthoView_camera:
  "g_pCamera orthoView = Some (updateCameraVectors
      (startCamera\<lparr>Position := Vec3 0 15 0, Yaw := - 90, Pitch := - 89\<rparr>))"
  by (simp add: orthoView_def SwitchToOrthographic_state [OF startView_flags startView_camera]
      startView_slots constrainPitch_def)

lemma orthoView_flags: "bOrthographicProjection orthoView" "cameraStatesInitialized orthoView"
  by (simp_all add: orthoView_def SwitchToOrthographic_state [OF startView_flags startView_camera]
      startView_flags)

lemma orthoView_slots:
  "perspectivePosition orthoView = Vec3 0 5 12" "perspectiveYaw orthoView = - 90"
  "perspectivePitch orthoView = 0"
  by (simp_all add: orthoView_def SwitchToOrthographic_state [OF startView_flags startView_camera]
      startCamera_fields)

theorem toggle_saves_and_loads_witness:
  "(\<exists>st' c'. SwitchToOrthographic startView = Inr st' \<and> g_pCamera st' = Some c'
       \<and> bOrthographicProjection st'
       \<and> perspectiveSlot st' = pose startCamera
       \<and> orthographicSlot st' = orthographicSlot startView
       \<and> Position c' = Vec3 0 15 0 \<and> Yaw c' = - 90 \<and> Pitch c' = - 89
       \<and> Zoom c' = 80 \<and> MovementSpeed c' = 5 / 2)
   \<and> (\<exists>st' c'. SwitchToPerspective orthoView = Inr st' \<and> g_pCamera st' = Some c'
       \<and> \<not> bOrthographicProjection st'
       \<and> perspectiveSlot st' = perspectiveSlot orthoView
       \<and> Position c' = Vec3 0 5 12 \<and> Yaw c' = - 90 \<and> Pitch c' = 0
       \<and> Zoom c' = 80 \<and> MovementSpeed c' = 5 / 2)"
proof -
  have a: "\<exists>st' c'. SwitchToOrthographic startView = Inr st' \<and> g_pCamera st' = Some c'
       \<and> bOrthographicProjection st'
       \<and> perspectiveSlot st' = pose startCamera
       \<and> orthographicSlot st' = orthographicSlot startView
       \<and> Position c' = Vec3 0 15 0 \<and> Yaw c' = - 90 \<and> Pitch c' = - 89
       \<and> Zoom c' = 80 \<and> MovementSpeed c' = 5 / 2"
    using toggle_saves_and_loads [OF startView_flags(2) startView_camera] startView_flags(1)
    by (auto simp add: startView_slots startCamera_fields updateCameraVectors_fields constrainPitch_def)
  have b: "\<exists>st' c'. SwitchToPerspective orthoView = Inr st' \<and> g_pCamera st' = Some c'
       \<and> \<not> bOrthographicProjection st'
       \<and> perspectiveSlot st' = perspectiveSlot orthoView
       \<and> Position c' = Vec3 0 5 12 \<and> Yaw c' = - 90 \<and> Pitch c' = 0
       \<and> Zoom c' = 80 \<and> MovementSpeed c' = 5 / 2"
    using toggle_saves_and_loads [OF orthoView_flags(2) orthoView_camera] orthoView_flags(1)
    by (auto simp add: orthoView_slots startCamera_fields updateCameraVectors_fields constrainPitch_def)
  from a b show ?thesis by blast
qed

section \<open>Rounding\<close>

















section \<open>The mouse callbacks\<close>

lemma Mouse_Scroll_Callback_speed:
  "gCameraSpeed (Mouse_Scroll_Callback xOffset yOffset st) =
     max (1 / 2) (min 10 (gCameraSpeed st + yOffset * (1 / 2)))"
  by (simp add: Mouse_Scroll_Callback_def Let_def MIN_CAMERA_SPEED_def MAX_CAMERA_SPEED_def
      split: option.split)

lemma Mouse_Scroll_Callback_camera:
  "map_option MovementSpeed (g_pCamera (Mouse_Scroll_Callback xOffset yOffset st)) =
     map_option (\<lambda>c. gCameraSpeed (Mouse_Scroll_Callback xOffset yOffset st)) (g_pCamera st)"
  by (simp add: Mouse_Scroll_Callback_def Let_def split: option.split)

lemma scrolls_snoc:
  "scrolls (evs @ [(xOffset, yOffset)]) st = Mouse_Scroll_Callback xOffset yOffset (scrolls evs st)"
  by (simp add: scrolls_def)

text \<open>
  Claim C7. After each scroll event of any sequence, from any state (the constructed
  view, whose speed is 2.5, among them), the camera speed lies within \<open>[0.5, 10]\<close>: it
  is the speed before plus half the scroll delta, clamped, and it is the movement speed
  of the camera, if there is one.
\<close>

theorem scroll_speed_clamped:
  "1 / 2 \<le> gCameraSpeed (scrolls (evs @ [(xOffset, yOffset)]) st)
   \<and> gCameraSpeed (scrolls (evs @ [(xOffset, yOffset)]) st) \<le> 10
   \<and> gCameraSpeed (scrolls (evs @ [(xOffset, yOffset)]) st) =
       max (1 / 2) (min 10 (gCameraSpeed (scrolls evs st) + yOffset * (1 / 2)))
   \<and> map_option MovementSpeed (g_pCamera (scrolls (evs @ [(xOffset, yOffset)]) st)) =
       map_option (\<lambda>c. gCameraSpeed (scrolls (evs @ [(xOffset, yOffset)]) st))
         (g_pCamera (scrolls evs st))
   \<and> gCameraSpeed startView = 5 / 2"
proof -
  have "gCameraSpeed startView = 5 / 2"
    by (simp add: startView_def ViewManager_new_def globals_def Let_def)
  then show ?thesis
    unfolding scrolls_snoc
    by (simp add: Mouse_Scroll_Callback_speed Mouse_Scroll_Callback_camera)
qed







end
